theory Spec2Isabelle
  imports Main "HOL-Library.AList"
begin

section \<open>The container-kill plugin: values, exceptions and the cluster gateway\<close>

text \<open>
  The program is \<^verbatim>\<open>run_container_plugin.py\<close>. Its functions talk to a Kubernetes
  cluster through the \<^verbatim>\<open>kubernetes\<close> client library. The library and the cluster are
  not part of the program, so they enter the model as a record of operations (the
  gateway) over a world state \<open>'w\<close>: each operation takes the world and returns either an
  exception or a value, together with the new world. Every call the program makes to the
  gateway is appended to a log, so that the number and the arguments of the calls can be
  stated.
\<close>

subsection \<open>Python values held by the program\<close>

datatype ApiClient = ApiClient string
  \<comment> \<open>\<^verbatim>\<open>client.ApiClient(configuration=client_config)\<close>; the string is the client configuration\<close>

datatype pyval =
    CoreV1Api ApiClient   \<comment> \<open>\<^verbatim>\<open>client.CoreV1Api(cli)\<close>\<close>
  | PStr string           \<comment> \<open>a \<^verbatim>\<open>str\<close>\<close>
  | PNone                 \<comment> \<open>\<^verbatim>\<open>None\<close>\<close>
  | PObject string        \<comment> \<open>a module, class or function bound to a module-level name\<close>

text \<open>
  Exceptions. Every constructor stands for an instance of a subclass of Python's
  \<^verbatim>\<open>Exception\<close>, which is what the client library and the interpreter raise for a failed
  call, a missing attribute or an unbound name, and what \<^verbatim>\<open>except Exception\<close> catches.
\<close>

datatype exn =
    ApiException string            \<comment> \<open>\<^verbatim>\<open>kubernetes.client.ApiException\<close>\<close>
  | AttributeError string string   \<comment> \<open>class of the receiver, attribute\<close>
  | NameError string               \<comment> \<open>the unbound name\<close>
  | IndexError
  | Exception string               \<comment> \<open>any other exception, with its message\<close>

record V1Pod =
  metadata_name :: string          \<comment> \<open>\<^verbatim>\<open>pod.metadata.name\<close>\<close>
  spec_containers :: "string list" \<comment> \<open>\<^verbatim>\<open>[cont.name for cont in pod.spec.containers]\<close>\<close>

text \<open>The keyword arguments of one \<^verbatim>\<open>stream(core_v1.connect_get_namespaced_pod_exec, ...)\<close> call.\<close>

record exec_request =
  ex_name :: pyval
  ex_namespace :: string
  ex_container :: "string option"   \<comment> \<open>\<open>None\<close>: the keyword \<^verbatim>\<open>container\<close> is not passed\<close>
  ex_command :: "string list"
  ex_stderr :: bool
  ex_stdin :: bool
  ex_stdout :: bool
  ex_tty :: bool

datatype call =
    KubeConfigMerger_call string
  | load_and_set_call string
  | list_namespaced_pod_call string "string option"
  | read_namespaced_pod_call pyval string
  | exec_call exec_request
  | time_ns_call
  | close_call

record 'w gateway =
  KUBE_CONFIG_DEFAULT_LOCATION :: string
  KubeConfigMerger :: "string \<Rightarrow> 'w \<Rightarrow> (exn + string option) \<times> 'w"
    \<comment> \<open>\<^verbatim>\<open>KubeConfigMerger(path).config\<close>: \<open>None\<close> when no configuration was found\<close>
  load_and_set :: "string \<Rightarrow> 'w \<Rightarrow> (exn + string) \<times> 'w"
    \<comment> \<open>\<^verbatim>\<open>KubeConfigLoader(config_dict=...)\<close> and \<^verbatim>\<open>loader.load_and_set(client_config)\<close>\<close>
  list_namespaced_pod :: "string \<Rightarrow> string option \<Rightarrow> 'w \<Rightarrow> (exn + V1Pod list) \<times> 'w"
    \<comment> \<open>namespace, label selector (when passed); the result is \<^verbatim>\<open>ret.items\<close>\<close>
  read_namespaced_pod :: "pyval \<Rightarrow> string \<Rightarrow> 'w \<Rightarrow> (exn + V1Pod) \<times> 'w"
  stream :: "exec_request \<Rightarrow> 'w \<Rightarrow> (exn + string) \<times> 'w"
  time_ns :: "'w \<Rightarrow> int \<times> 'w"
  format_exc :: "exn \<Rightarrow> string"
    \<comment> \<open>\<^verbatim>\<open>traceback.format_exc()\<close> for the exception being handled\<close>

record 'w state =
  world :: 'w
  calls :: "call list"

definition invoke :: "call \<Rightarrow> ('w \<Rightarrow> 'r \<times> 'w) \<Rightarrow> 'w state \<Rightarrow> 'r \<times> 'w state" where
  "invoke c f st =
     (case f (world st) of (r, w') \<Rightarrow> (r, \<lparr>world = w', calls = calls st @ [c]\<rparr>))"

subsection \<open>Truth value, membership, names and attributes\<close>

definition py_truthy :: "string option \<Rightarrow> bool" where
  \<comment> \<open>\<^verbatim>\<open>if x:\<close> for \<open>x\<close> a \<^verbatim>\<open>str\<close> or \<^verbatim>\<open>None\<close>\<close>
  "py_truthy v = (case v of None \<Rightarrow> False | Some s \<Rightarrow> s \<noteq> [])"

definition py_in :: "string option \<Rightarrow> string list \<Rightarrow> bool" where
  \<comment> \<open>\<^verbatim>\<open>x in names\<close> for \<open>names\<close> a list of \<^verbatim>\<open>str\<close>\<close>
  "py_in v names = (case v of None \<Rightarrow> False | Some s \<Rightarrow> s \<in> set names)"

definition py_opt :: "string option \<Rightarrow> pyval" where
  "py_opt v = (case v of None \<Rightarrow> PNone | Some s \<Rightarrow> PStr s)"

text \<open>
  The names bound at module level: the imports of lines 3 to 11 and the functions and
  classes the file defines. \<^verbatim>\<open>logging\<close>, \<^verbatim>\<open>time\<close> and \<^verbatim>\<open>container_name\<close> are used by
  the program and bound nowhere.
\<close>

definition module_globals :: "string list" where
  "module_globals =
     [''sys'', ''typing'', ''dataclass'', ''field'', ''format_exc'', ''config'', ''client'',
      ''V1PodList'', ''V1Pod'', ''ApiException'', ''V1DeleteOptions'', ''validation'',
      ''plugin'', ''schema'', ''stream'', ''setup_kubernetes'', ''list_pods'',
      ''exec_cmd_in_pod'', ''get_containers_in_pod'', ''Container'',
      ''ContainerKillSuccessOutput'', ''ContainerKillErrorOutput'', ''KillContainerConfig'',
      ''kill_containers'']"

definition load_global :: "string \<Rightarrow> exn + pyval" where
  "load_global n = (if n \<in> set module_globals then Inr (PObject n) else Inl (NameError n))"

fun class_name :: "pyval \<Rightarrow> string" where
  "class_name (CoreV1Api _) = ''CoreV1Api''"
| "class_name (PStr _) = ''str''"
| "class_name PNone = ''NoneType''"
| "class_name (PObject n) = n"

definition py_getattr :: "pyval \<Rightarrow> string \<Rightarrow> exn + pyval" where
  \<comment> \<open>the attributes the program reads are \<^verbatim>\<open>metadata\<close>, \<^verbatim>\<open>namespace\<close> and \<^verbatim>\<open>name\<close>;
      no value of type \<open>pyval\<close> has one of them\<close>
  "py_getattr v a = Inl (AttributeError (class_name v) a)"

subsection \<open>Decimal text of an integer, as \<^verbatim>\<open>str.format\<close> writes it\<close>

fun digits :: "nat \<Rightarrow> string" where
  "digits n = (if n < 10 then [''0123456789'' ! n]
               else digits (n div 10) @ [''0123456789'' ! (n mod 10)])"

declare digits.simps [simp del]

definition str_int :: "int \<Rightarrow> string" where
  "str_int i = (if i < 0 then CHR ''-'' # digits (nat (- i)) else digits (nat i))"


section \<open>The functions of the program\<close>

subsection \<open>\<^verbatim>\<open>setup_kubernetes\<close> (lines 13 to 28)\<close>

definition setup_kubernetes ::
  "'w gateway \<Rightarrow> string option \<Rightarrow> 'w state \<Rightarrow> (exn + ApiClient) \<times> 'w state" where
  "setup_kubernetes gw kubeconfig_path st =
     (let path = (case kubeconfig_path of
                    None \<Rightarrow> KUBE_CONFIG_DEFAULT_LOCATION gw
                  | Some p \<Rightarrow> p)
      in case invoke (KubeConfigMerger_call path) (KubeConfigMerger gw path) st of
           (Inl e, st1) \<Rightarrow> (Inl e, st1)
         | (Inr None, st1) \<Rightarrow>
             (Inl (Exception (''Invalid kube-config file: '' @ path @
                              ''. No configuration found.'')), st1)
         | (Inr (Some config_dict), st1) \<Rightarrow>
             (case invoke (load_and_set_call config_dict) (load_and_set gw config_dict) st1 of
                (Inl e, st2) \<Rightarrow> (Inl e, st2)
              | (Inr client_config, st2) \<Rightarrow> (Inr (ApiClient client_config), st2)))"

subsection \<open>\<^verbatim>\<open>list_pods\<close> (lines 31 to 47)\<close>

text \<open>
  The handler of \<^verbatim>\<open>ApiException\<close> first evaluates \<^verbatim>\<open>logging.error\<close>; the name
  \<^verbatim>\<open>logging\<close> is looked up before anything else in that statement, and only then is
  the exception raised again. Any other exception passes through unchanged.
\<close>

definition list_pods ::
  "'w gateway \<Rightarrow> string \<Rightarrow> string option \<Rightarrow> 'w state \<Rightarrow> (exn + string list) \<times> 'w state" where
  "list_pods gw namespace label_selector st =
     (let sel = (if py_truthy label_selector then label_selector else None)
      in case invoke (list_namespaced_pod_call namespace sel)
                     (list_namespaced_pod gw namespace sel) st of
           (Inl (ApiException m), st1) \<Rightarrow>
             (case load_global ''logging'' of
                Inl e' \<Rightarrow> (Inl e', st1)
              | Inr _ \<Rightarrow> (Inl (ApiException m), st1))
         | (Inl e, st1) \<Rightarrow> (Inl e, st1)
         | (Inr items, st1) \<Rightarrow> (Inr (map metadata_name items), st1))"

subsection \<open>\<^verbatim>\<open>exec_cmd_in_pod\<close> (lines 50 to 79)\<close>

text \<open>
  \<open>base_command = None\<close> stands for a call that leaves the argument out, which Python
  fills with the default \<^verbatim>\<open>"bash"\<close>.
\<close>

definition exec_cmd_in_pod ::
  "'w gateway \<Rightarrow> string \<Rightarrow> pyval \<Rightarrow> string \<Rightarrow> string option \<Rightarrow> string option \<Rightarrow> 'w state
     \<Rightarrow> (exn + string) \<times> 'w state" where
  "exec_cmd_in_pod gw command pod_name namespace container base_command st =
     (let exec_command = [(case base_command of None \<Rightarrow> ''bash'' | Some b \<Rightarrow> b), ''-c'', command]
      in if py_truthy container then
           (let req = \<lparr>ex_name = pod_name, ex_namespace = namespace, ex_container = container,
                       ex_command = exec_command, ex_stderr = True, ex_stdin = False,
                       ex_stdout = True, ex_tty = False\<rparr>
            in invoke (exec_call req) (stream gw req) st)
         else
           (let req = \<lparr>ex_name = pod_name, ex_namespace = namespace, ex_container = None,
                       ex_command = exec_command, ex_stderr = True, ex_stdin = False,
                       ex_stdout = True, ex_tty = False\<rparr>
            in invoke (exec_call req) (stream gw req) st))"

subsection \<open>\<^verbatim>\<open>get_containers_in_pod\<close> (lines 82 to 89)\<close>

text \<open>The \<^verbatim>\<open>print(pod_info)\<close> of line 84 writes to standard output and is left out.\<close>

definition get_containers_in_pod ::
  "'w gateway \<Rightarrow> pyval \<Rightarrow> string \<Rightarrow> 'w state \<Rightarrow> (exn + string list) \<times> 'w state" where
  "get_containers_in_pod gw pod_name namespace st =
     (case invoke (read_namespaced_pod_call pod_name namespace)
                  (read_namespaced_pod gw pod_name namespace) st of
        (Inl e, st1) \<Rightarrow> (Inl e, st1)
      | (Inr pod_info, st1) \<Rightarrow> (Inr (spec_containers pod_info), st1))"

subsection \<open>The data classes (lines 92 to 155)\<close>

datatype Container = Container pyval pyval pyval
  \<comment> \<open>\<^verbatim>\<open>namespace\<close>, \<^verbatim>\<open>name\<close>, \<^verbatim>\<open>container\<close>; a dataclass does not check its field types\<close>

datatype kill_output =
    ContainerKillSuccessOutput "(int \<times> Container) list"
      \<comment> \<open>\<^verbatim>\<open>containers: Dict[int, Container]\<close>, in insertion order\<close>
  | ContainerKillErrorOutput string

record KillContainerConfig =
  namespace :: string
  container_name :: "string option"
  command :: string
  kill :: int
  label_selector :: "string option"
  kubeconfig_path :: "string option"

text \<open>
  The declaration of \<^verbatim>\<open>KillContainerConfig\<close> as data: each field with the validation
  annotations the source attaches to it.
\<close>

datatype annotation = Min nat | Required_if_not string

definition KillContainerConfig_fields :: "(string \<times> annotation list) list" where
  "KillContainerConfig_fields =
     [(''namespace'', []),
      (''container_name'', []),
      (''command'', []),
      (''kill'', [Min 1]),
      (''label_selector'', [Min 1, Required_if_not ''name_pattern'']),
      (''kubeconfig_path'', [])]"

definition selection_fields :: "string list" where
  \<comment> \<open>the fields of the configuration that \<^verbatim>\<open>list_pods\<close> can take as its selector\<close>
  "selection_fields = filter (\<lambda>f. f \<in> {''label_selector'', ''name_pattern''})
                             (map fst KillContainerConfig_fields)"

subsection \<open>\<^verbatim>\<open>kill_containers\<close> (lines 165 to 197)\<close>

datatype 'a flow =
    Raise exn                      \<comment> \<open>an exception leaves the statement\<close>
  | Return "string \<times> kill_output"       \<comment> \<open>a \<^verbatim>\<open>return\<close> statement\<close>
  | Next 'a                        \<comment> \<open>the statement completes\<close>

text \<open>
  Lines 185 to 190. The arguments of \<^verbatim>\<open>Container(...)\<close> are evaluated from left to
  right, then the subscript \<^verbatim>\<open>int(time.time_ns())\<close> of the assignment. Assigning to a
  key of a \<^verbatim>\<open>dict\<close> replaces the value of a key that is present and appends a new key
  otherwise, which is \<^const>\<open>AList.update\<close>.
\<close>

definition record_kill ::
  "'w gateway \<Rightarrow> pyval \<Rightarrow> (int \<times> Container) list \<Rightarrow> 'w state
     \<Rightarrow> (int \<times> Container) list flow \<times> 'w state" where
  "record_kill gw pod killed_containers st =
     (case py_getattr pod ''metadata'' of Inl e \<Rightarrow> (Raise e, st) | Inr md \<Rightarrow>
      case py_getattr md ''namespace'' of Inl e \<Rightarrow> (Raise e, st) | Inr ns \<Rightarrow>
      case py_getattr pod ''metadata'' of Inl e \<Rightarrow> (Raise e, st) | Inr md' \<Rightarrow>
      case py_getattr md' ''name'' of Inl e \<Rightarrow> (Raise e, st) | Inr nm \<Rightarrow>
      case load_global ''container_name'' of Inl e \<Rightarrow> (Raise e, st) | Inr cn \<Rightarrow>
      case load_global ''time'' of Inl e \<Rightarrow> (Raise e, st) | Inr _ \<Rightarrow>
      case invoke time_ns_call (time_ns gw) st of
        (t, st1) \<Rightarrow> (Next (AList.update t (Container ns nm cn) killed_containers), st1))"

text \<open>One iteration of the loop of line 178, for the index \<open>i\<close> (lines 179 to 190).\<close>

definition kill_one ::
  "'w gateway \<Rightarrow> KillContainerConfig \<Rightarrow> pyval list \<Rightarrow> (int \<times> Container) list \<Rightarrow> nat
     \<Rightarrow> 'w state \<Rightarrow> (int \<times> Container) list flow \<times> 'w state" where
  "kill_one gw cfg pods killed_containers i st =
     (if i < length pods then
        (let pod = pods ! i
         in case get_containers_in_pod gw pod (namespace cfg) st of
              (Inl e, st1) \<Rightarrow> (Raise e, st1)
            | (Inr containers, st1) \<Rightarrow>
                if py_in (container_name cfg) containers then
                  (case exec_cmd_in_pod gw (command cfg) pod (namespace cfg)
                          (container_name cfg) (Some ''bash'') st1 of
                     (Inl e, st2) \<Rightarrow> (Raise e, st2)
                   | (Inr ret, st2) \<Rightarrow> record_kill gw pod killed_containers st2)
                else
                  (Return (''error'', ContainerKillErrorOutput
                     ''Cannot find the specified container in the pods matching the label, please check''),
                   st1))
      else (Raise IndexError, st))"

fun kill_loop ::
  "'w gateway \<Rightarrow> KillContainerConfig \<Rightarrow> pyval list \<Rightarrow> nat list \<Rightarrow> (int \<times> Container) list
     \<Rightarrow> 'w state \<Rightarrow> (int \<times> Container) list flow \<times> 'w state" where
  "kill_loop gw cfg pods [] killed_containers st = (Next killed_containers, st)"
| "kill_loop gw cfg pods (i # rest) killed_containers st =
     (case kill_one gw cfg pods killed_containers i st of
        (Next killed_containers', st1) \<Rightarrow> kill_loop gw cfg pods rest killed_containers' st1
      | (Raise e, st1) \<Rightarrow> (Raise e, st1)
      | (Return out, st1) \<Rightarrow> (Return out, st1))"

text \<open>
  The body of the \<^verbatim>\<open>with\<close> statement (lines 168 to 190). Line 170 builds a tuple of
  three values; \<^verbatim>\<open>range(cfg.kill)\<close> is empty when \<^verbatim>\<open>cfg.kill\<close> is not positive.
\<close>

definition with_body ::
  "'w gateway \<Rightarrow> KillContainerConfig \<Rightarrow> ApiClient \<Rightarrow> 'w state
     \<Rightarrow> (int \<times> Container) list flow \<times> 'w state" where
  "with_body gw cfg cli st =
     (let core_v1 = CoreV1Api cli;
          pods = [core_v1, py_opt (label_selector cfg), PStr (namespace cfg)]
      in if int (length pods) < kill cfg then
           (Return (''error'', ContainerKillErrorOutput
              (''Not enough pods match the criteria, expected '' @ str_int (kill cfg) @
               '' but found only '' @ str_int (int (length pods)) @ '' pods'')), st)
         else kill_loop gw cfg pods [0 ..< nat (kill cfg)] [] st)"

text \<open>
  The whole function, as the body that the decorator \<^verbatim>\<open>plugin.step\<close> registers. It
  calls \<^verbatim>\<open>setup_kubernetes(None)\<close>, whatever the configuration says. The \<^verbatim>\<open>with\<close>
  statement closes the client on every way out of its body; the \<^verbatim>\<open>try\<close> statement
  turns every exception into the \<^verbatim>\<open>"error"\<close> result.
\<close>

definition kill_containers ::
  "'w gateway \<Rightarrow> KillContainerConfig \<Rightarrow> 'w state \<Rightarrow> (string \<times> kill_output) \<times> 'w state" where
  "kill_containers gw cfg st =
     (case setup_kubernetes gw None st of
        (Inl e, st1) \<Rightarrow> ((''error'', ContainerKillErrorOutput (format_exc gw e)), st1)
      | (Inr cli, st1) \<Rightarrow>
          (case with_body gw cfg cli st1 of
             (r, st2) \<Rightarrow>
               (let st3 = st2\<lparr>calls := calls st2 @ [close_call]\<rparr>
                in case r of
                     Raise e \<Rightarrow> ((''error'', ContainerKillErrorOutput (format_exc gw e)), st3)
                   | Return out \<Rightarrow> (out, st3)
                   | Next killed_containers \<Rightarrow>
                       ((''success'', ContainerKillSuccessOutput killed_containers), st3))))"

definition exec_calls :: "call list \<Rightarrow> exec_request list" where
  "exec_calls cs = concat (map (\<lambda>c. case c of exec_call r \<Rightarrow> [r] | _ \<Rightarrow> []) cs)"


section \<open>A concrete cluster\<close>

text \<open>
  A gateway over a fixed table of pods (name, container names), used to run the program
  on concrete inputs. The configuration found at a path is labelled with the path, so the
  client tells which file it was built from. The table holds the pods that match the
  selector, and listing returns them in the order of the table. Reading a pod answers
  for the name of a pod of the table and raises otherwise: \<^verbatim>\<open>ApiException\<close> (404) for
  an unknown name, a missing parameter for \<^verbatim>\<open>None\<close>, and an \<^verbatim>\<open>AttributeError\<close>, as
  from a path parameter that cannot be serialised, for an object that is no string.
  Every exec succeeds with empty output. The world is the clock.
\<close>

definition cluster_gateway :: "(string \<times> string list) list \<Rightarrow> int gateway" where
  "cluster_gateway table =
     \<lparr>KUBE_CONFIG_DEFAULT_LOCATION = ''~/.kube/config'',
      KubeConfigMerger = (\<lambda>path w. (Inr (Some path), w)),
      load_and_set = (\<lambda>config_dict w. (Inr config_dict, w)),
      list_namespaced_pod = (\<lambda>ns sel w.
         (Inr (map (\<lambda>(n, cs). \<lparr>metadata_name = n, spec_containers = cs\<rparr>) table), w)),
      read_namespaced_pod = (\<lambda>name ns w.
         (case name of
            PStr n \<Rightarrow>
              (case map_of table n of
                 Some cs \<Rightarrow> Inr \<lparr>metadata_name = n, spec_containers = cs\<rparr>
               | None \<Rightarrow> Inl (ApiException ''(404) Not Found''))
          | PNone \<Rightarrow> Inl (Exception ''Missing the required parameter name'')
          | v \<Rightarrow> Inl (AttributeError (class_name v) ''openapi_types''), w)),
      stream = (\<lambda>req w. (Inr [], w)),
      time_ns = (\<lambda>w. (w, w + 1)),
      format_exc = (\<lambda>e.
         ''Traceback (most recent call last): '' @
         (case e of
            ApiException m \<Rightarrow> ''ApiException: '' @ m
          | AttributeError c a \<Rightarrow> ''AttributeError: '' @ c @ '' object has no attribute '' @ a
          | NameError n \<Rightarrow> ''NameError: name '' @ n @ '' is not defined''
          | IndexError \<Rightarrow> ''IndexError: tuple index out of range''
          | Exception m \<Rightarrow> ''Exception: '' @ m))\<rparr>"

definition st0 :: "int state" where
  "st0 = \<lparr>world = 0, calls = []\<rparr>"

definition chaos_cfg :: "int \<Rightarrow> KillContainerConfig" where
  \<comment> \<open>namespace \<^verbatim>\<open>chaos\<close>, selector \<^verbatim>\<open>app=web\<close>, container \<^verbatim>\<open>app\<close>, the default command\<close>
  "chaos_cfg k =
     \<lparr>namespace = ''chaos'', container_name = Some ''app'', command = ''kill 1'', kill = k,
      label_selector = Some ''app=web'', kubeconfig_path = None\<rparr>"

text \<open>
  A gateway that answers every call of one kind with one fixed result, as a test double
  of the client does: the configuration found, the client configuration loaded, the pod
  read and the result of an exec.
\<close>

definition stub_gateway ::
  "(exn + string option) \<Rightarrow> (exn + string) \<Rightarrow> (exn + V1Pod) \<Rightarrow> (exn + string) \<Rightarrow> int gateway" where
  "stub_gateway merged loaded pod_info exec_result =
     (cluster_gateway [])
       \<lparr>KubeConfigMerger := (\<lambda>path w. (merged, w)),
        load_and_set := (\<lambda>config_dict w. (loaded, w)),
        read_namespaced_pod := (\<lambda>name ns w. (pod_info, w)),
        stream := (\<lambda>req w. (exec_result, w))\<rparr>"


section \<open>What one pass through the loop can do\<close>

text \<open>
  Building the record of a kill always raises: the value taken from \<open>pods\<close> has no
  attribute \<^verbatim>\<open>metadata\<close>, whichever of the values of the model it is. So no
  iteration of the loop completes, and the loop ends in its first iteration.
\<close>

lemma record_kill_raises:
  "record_kill gw pod killed st = (Raise (AttributeError (class_name pod) ''metadata''), st)"
  by (simp add: record_kill_def py_getattr_def)

lemma kill_one_outcome:
  "(\<exists>e st'. kill_one gw cfg pods killed i st = (Raise e, st')) \<or>
   (\<exists>st'. kill_one gw cfg pods killed i st =
      (Return (''error'', ContainerKillErrorOutput
         ''Cannot find the specified container in the pods matching the label, please check''), st'))"
  by (simp add: kill_one_def record_kill_raises Let_def split: prod.split sum.split)

lemma kill_loop_outcome:
  "rest \<noteq> [] \<Longrightarrow>
   (\<exists>e st'. kill_loop gw cfg pods rest killed st = (Raise e, st')) \<or>
   (\<exists>st'. kill_loop gw cfg pods rest killed st =
      (Return (''error'', ContainerKillErrorOutput
         ''Cannot find the specified container in the pods matching the label, please check''), st'))"
proof (cases rest)
  case Nil
  assume "rest \<noteq> []"
  with Nil show ?thesis by simp
next
  case (Cons i more)
  from kill_one_outcome [of gw cfg pods killed i st] show ?thesis
    unfolding Cons by auto
qed

lemma kill_loop_shape:
  "(\<exists>e st'. kill_loop gw cfg pods rest killed st = (Raise e, st')) \<or>
   (\<exists>m st'. kill_loop gw cfg pods rest killed st = (Return (''error'', ContainerKillErrorOutput m), st')) \<or>
   (\<exists>k st'. kill_loop gw cfg pods rest killed st = (Next k, st'))"
proof (cases rest)
  case Nil
  then show ?thesis by simp
next
  case (Cons i more)
  then have "rest \<noteq> []" by simp
  from kill_loop_outcome [OF this, of gw cfg pods killed st] show ?thesis by blast
qed

lemma with_body_shape:
  "(\<exists>e st'. with_body gw cfg cli st = (Raise e, st')) \<or>
   (\<exists>m st'. with_body gw cfg cli st = (Return (''error'', ContainerKillErrorOutput m), st')) \<or>
   (\<exists>k st'. with_body gw cfg cli st = (Next k, st'))"
proof (cases "3 < kill cfg")
  case True
  then show ?thesis by (simp add: with_body_def)
next
  case False
  then have "with_body gw cfg cli st =
    kill_loop gw cfg [CoreV1Api cli, py_opt (label_selector cfg), PStr (namespace cfg)]
      [0 ..< nat (kill cfg)] [] st"
    by (simp add: with_body_def)
  with kill_loop_shape show ?thesis by metis
qed

lemma kill_loop_first:
  "kill_loop gw cfg pods (i # rest) killed st = kill_one gw cfg pods killed i st"
  using kill_one_outcome [of gw cfg pods killed i st] by auto

lemma exec_calls_append [simp]: "exec_calls (xs @ ys) = exec_calls xs @ exec_calls ys"
  by (simp add: exec_calls_def)

lemma get_containers_in_pod_no_exec:
  "exec_calls (calls (snd (get_containers_in_pod gw p n st))) = exec_calls (calls st)"
  by (simp add: get_containers_in_pod_def invoke_def exec_calls_def split: prod.split sum.split)

lemma exec_cmd_in_pod_one_exec:
  "length (exec_calls (calls (snd (exec_cmd_in_pod gw c p n ct b st))))
     = Suc (length (exec_calls (calls st)))"
  by (simp add: exec_cmd_in_pod_def invoke_def exec_calls_def Let_def split: prod.split)

lemma kill_one_exec_count:
  "length (exec_calls (calls (snd (kill_one gw cfg pods killed i st))))
     \<le> Suc (length (exec_calls (calls st)))"
proof (cases "i < length pods")
  case False
  then show ?thesis by (simp add: kill_one_def)
next
  case True
  obtain r st1 where g: "get_containers_in_pod gw (pods ! i) (namespace cfg) st = (r, st1)"
    by (cases "get_containers_in_pod gw (pods ! i) (namespace cfg) st")
  from get_containers_in_pod_no_exec [of gw "pods ! i" "namespace cfg" st] g
  have e1: "exec_calls (calls st1) = exec_calls (calls st)" by simp
  show ?thesis
  proof (cases r)
    case (Inl e)
    with True g e1 show ?thesis by (simp add: kill_one_def)
  next
    case (Inr containers)
    show ?thesis
    proof (cases "py_in (container_name cfg) containers")
      case False
      with True g Inr e1 show ?thesis by (simp add: kill_one_def)
    next
      case present: True
      obtain r2 st2 where x: "exec_cmd_in_pod gw (command cfg) (pods ! i) (namespace cfg)
          (container_name cfg) (Some ''bash'') st1 = (r2, st2)"
        by (cases "exec_cmd_in_pod gw (command cfg) (pods ! i) (namespace cfg)
          (container_name cfg) (Some ''bash'') st1")
      from exec_cmd_in_pod_one_exec [of gw "command cfg" "pods ! i" "namespace cfg"
          "container_name cfg" "Some ''bash''" st1] x e1
      have "length (exec_calls (calls st2)) = Suc (length (exec_calls (calls st)))" by simp
      with True g Inr present x show ?thesis
        by (cases r2) (simp_all add: kill_one_def record_kill_raises)
    qed
  qed
qed

lemma kill_loop_exec_count:
  "length (exec_calls (calls (snd (kill_loop gw cfg pods rest killed st))))
     \<le> Suc (length (exec_calls (calls st)))"
  by (cases rest) (simp_all add: kill_loop_first kill_one_exec_count del: kill_loop.simps(2))

lemma setup_kubernetes_no_exec:
  "exec_calls (calls (snd (setup_kubernetes gw p st))) = exec_calls (calls st)"
  by (simp add: setup_kubernetes_def invoke_def exec_calls_def Let_def
        split: prod.split sum.split option.split)

lemma with_body_exec_count:
  "length (exec_calls (calls (snd (with_body gw cfg cli st))))
     \<le> Suc (length (exec_calls (calls st)))"
  using kill_loop_exec_count [of gw cfg _ _ "[]" st] by (simp add: with_body_def Let_def)

lemma kill_containers_at_most_one_exec:
  "length (exec_calls (calls (snd (kill_containers gw cfg st))))
     \<le> Suc (length (exec_calls (calls st)))"
proof (cases "setup_kubernetes gw None st")
  case (Pair r st1)
  from setup_kubernetes_no_exec [of gw None st] Pair
  have st1: "exec_calls (calls st1) = exec_calls (calls st)" by simp
  show ?thesis
  proof (cases r)
    case (Inl e)
    with Pair st1 show ?thesis by (simp add: kill_containers_def)
  next
    case (Inr cli)
    obtain f st2 where b: "with_body gw cfg cli st1 = (f, st2)"
      by (cases "with_body gw cfg cli st1")
    from with_body_exec_count [of gw cfg cli st1] b st1
    have "length (exec_calls (calls st2)) \<le> Suc (length (exec_calls (calls st)))" by simp
    moreover have "exec_calls [close_call] = []" by (simp add: exec_calls_def)
    ultimately show ?thesis
      using Pair Inr b by (cases f) (simp_all add: kill_containers_def Let_def)
  qed
qed

lemma with_body_first_pod:
  assumes "1 \<le> kill cfg" and "\<not> 3 < kill cfg"
  shows "with_body gw cfg cli st =
           kill_one gw cfg [CoreV1Api cli, py_opt (label_selector cfg), PStr (namespace cfg)] [] 0 st"
proof -
  from assms(1) have "[0 ..< nat (kill cfg)] = 0 # [1 ..< nat (kill cfg)]"
    by (simp add: upt_conv_Cons)
  with assms(2) show ?thesis
    by (simp add: with_body_def kill_loop_first del: kill_loop.simps(2))
qed

lemma kill_containers_after_setup:
  "setup_kubernetes gw None st = (Inr cli, st1) \<Longrightarrow> with_body gw cfg cli st1 = (r, st2) \<Longrightarrow>
   fst (kill_containers gw cfg st) =
     (case r of Raise e \<Rightarrow> (''error'', ContainerKillErrorOutput (format_exc gw e))
      | Return out \<Rightarrow> out
      | Next killed \<Rightarrow> (''success'', ContainerKillSuccessOutput killed))"
  by (cases r) (simp_all add: kill_containers_def Let_def)

text \<open>
  A result tagged \<^verbatim>\<open>"success"\<close> carries no record, and arises only when the kill count
  is not positive: no run enters a record under a token.
\<close>

lemma success_carries_no_record:
  assumes "fst (kill_containers gw cfg st) = (''success'', ContainerKillSuccessOutput recs)"
  shows "recs = [] \<and> kill cfg \<le> 0"
proof (cases "setup_kubernetes gw None st")
  case (Pair r st1)
  show ?thesis
  proof (cases r)
    case (Inl e)
    with Pair assms show ?thesis by (simp add: kill_containers_def)
  next
    case (Inr cli)
    obtain f st2 where b: "with_body gw cfg cli st1 = (f, st2)"
      by (cases "with_body gw cfg cli st1")
    from kill_containers_after_setup [of gw st cli st1 cfg f st2] Pair Inr b assms
    have f: "(case f of Raise e \<Rightarrow> (''error'', ContainerKillErrorOutput (format_exc gw e))
               | Return out \<Rightarrow> out
               | Next killed \<Rightarrow> (''success'', ContainerKillSuccessOutput killed))
             = (''success'', ContainerKillSuccessOutput recs)"
      by simp
    show ?thesis
    proof (cases "1 \<le> kill cfg")
      case False
      then have "with_body gw cfg cli st1 = (Next [], st1)"
        by (simp add: with_body_def)
      with b f False show ?thesis by auto
    next
      case True
      show ?thesis
      proof (cases "3 < kill cfg")
        case big: True
        then have "\<exists>m. with_body gw cfg cli st1 = (Return (''error'', ContainerKillErrorOutput m), st1)"
          by (simp add: with_body_def)
        with b f show ?thesis by auto
      next
        case small: False
        from kill_one_outcome [of gw cfg
            "[CoreV1Api cli, py_opt (label_selector cfg), PStr (namespace cfg)]" "[]" 0 st1]
          with_body_first_pod [OF True small, of gw cli st1] b f
        show ?thesis by auto
      qed
    qed
  qed
qed

text \<open>
  The result of \<^const>\<open>kill_containers\<close> depends neither on what the cluster would list
  nor on the \<^verbatim>\<open>kubeconfig_path\<close> of the configuration.
\<close>

lemma exec_cmd_in_pod_ignores_list:
  "exec_cmd_in_pod (gw\<lparr>list_namespaced_pod := f\<rparr>) c p n ct b st = exec_cmd_in_pod gw c p n ct b st"
  by (simp add: exec_cmd_in_pod_def Let_def cong: if_cong prod.case_cong sum.case_cong option.case_cong flow.case_cong)

lemma get_containers_in_pod_ignores_list:
  "get_containers_in_pod (gw\<lparr>list_namespaced_pod := f\<rparr>) p n st = get_containers_in_pod gw p n st"
  by (simp add: get_containers_in_pod_def Let_def cong: if_cong prod.case_cong sum.case_cong option.case_cong flow.case_cong)

lemma setup_kubernetes_ignores_list:
  "setup_kubernetes (gw\<lparr>list_namespaced_pod := f\<rparr>) p st = setup_kubernetes gw p st"
  by (simp add: setup_kubernetes_def Let_def cong: if_cong prod.case_cong sum.case_cong option.case_cong flow.case_cong)

lemma kill_one_ignores_list:
  "kill_one (gw\<lparr>list_namespaced_pod := f\<rparr>) cfg pods killed i st = kill_one gw cfg pods killed i st"
  by (simp add: kill_one_def get_containers_in_pod_ignores_list exec_cmd_in_pod_ignores_list
        record_kill_raises Let_def cong: if_cong prod.case_cong sum.case_cong option.case_cong flow.case_cong)

lemma kill_loop_ignores_list:
  "kill_loop (gw\<lparr>list_namespaced_pod := f\<rparr>) cfg pods rest killed st = kill_loop gw cfg pods rest killed st"
  by (cases rest) (simp_all add: kill_loop_first kill_one_ignores_list del: kill_loop.simps(2))

lemma with_body_ignores_list:
  "with_body (gw\<lparr>list_namespaced_pod := f\<rparr>) cfg cli st = with_body gw cfg cli st"
  by (simp add: with_body_def kill_loop_ignores_list Let_def cong: if_cong prod.case_cong sum.case_cong option.case_cong flow.case_cong)

lemma kill_containers_ignores_list:
  "kill_containers (gw\<lparr>list_namespaced_pod := f\<rparr>) cfg st = kill_containers gw cfg st"
  by (simp add: kill_containers_def setup_kubernetes_ignores_list with_body_ignores_list Let_def cong: if_cong prod.case_cong sum.case_cong option.case_cong flow.case_cong)

lemma kill_one_ignores_path:
  "kill_one gw (cfg\<lparr>kubeconfig_path := p\<rparr>) pods killed i st = kill_one gw cfg pods killed i st"
  by (simp add: kill_one_def Let_def cong: if_cong prod.case_cong sum.case_cong option.case_cong flow.case_cong)

lemma kill_loop_ignores_path:
  "kill_loop gw (cfg\<lparr>kubeconfig_path := p\<rparr>) pods rest killed st = kill_loop gw cfg pods rest killed st"
  by (cases rest) (simp_all add: kill_loop_first kill_one_ignores_path del: kill_loop.simps(2))

lemma kill_containers_ignores_path:
  "kill_containers gw (cfg\<lparr>kubeconfig_path := p\<rparr>) st = kill_containers gw cfg st"
  by (simp add: kill_containers_def with_body_def kill_loop_ignores_path Let_def cong: if_cong prod.case_cong sum.case_cong option.case_cong flow.case_cong)

section \<open>The claims\<close>

text \<open>
  C1. The claim: when fewer pods are discovered than the kill count asks for, the run
  returns the "not enough pods" error, counted against the discovered pods, and issues
  no exec call. The code at the failing input: two pods match. With a kill count of 5 the
  error reports three pods, the length of the tuple of line 170; with a kill count of 3
  the check passes although only two pods exist, and the run ends in the top-level
  handler after reading a pod named by the \<^verbatim>\<open>CoreV1Api\<close> object. Pods are never listed.
\<close>

theorem insufficient_check_counts_the_tuple:
  "fst (list_pods (cluster_gateway [(''web-0'', [''app'']), (''web-1'', [''app''])])
          ''chaos'' (Some ''app=web'') st0) = Inr [''web-0'', ''web-1''] \<and>
   fst (kill_containers (cluster_gateway [(''web-0'', [''app'']), (''web-1'', [''app''])])
          (chaos_cfg 5) st0) =
     (''error'', ContainerKillErrorOutput
        ''Not enough pods match the criteria, expected 5 but found only 3 pods'') \<and>
   kill_containers (cluster_gateway [(''web-0'', [''app'']), (''web-1'', [''app''])])
          (chaos_cfg 3) st0 =
     ((''error'', ContainerKillErrorOutput
        ''Traceback (most recent call last): AttributeError: CoreV1Api object has no attribute openapi_types''),
      \<lparr>world = 0,
       calls = [KubeConfigMerger_call ''~/.kube/config'', load_and_set_call ''~/.kube/config'',
                read_namespaced_pod_call (CoreV1Api (ApiClient ''~/.kube/config'')) ''chaos'',
                close_call]\<rparr>)"
  by code_simp

text \<open>
  C2. The claim: with enough pods, the container present and every exec succeeding, the
  run returns \<^verbatim>\<open>"success"\<close> with one record per pod. The code at the failing input:
  three pods carry the container and two are to be killed; the run returns \<^verbatim>\<open>"error"\<close>.
\<close>

theorem sufficient_pods_run_returns_error:
  "fst (list_pods (cluster_gateway [(''web-0'', [''app'']), (''web-1'', [''app'']), (''web-2'', [''app''])])
          ''chaos'' (Some ''app=web'') st0) = Inr [''web-0'', ''web-1'', ''web-2''] \<and>
   fst (kill_containers
          (cluster_gateway [(''web-0'', [''app'']), (''web-1'', [''app'']), (''web-2'', [''app''])])
          (chaos_cfg 2) st0) =
     (''error'', ContainerKillErrorOutput
        ''Traceback (most recent call last): AttributeError: CoreV1Api object has no attribute openapi_types'')"
  by code_simp

text \<open>
  C3. The claim: when the container is missing at position \<open>j\<close> and present before, the
  run returns the container-not-found error after exactly \<open>j\<close> exec calls. The code at
  the failing input: three pods, the third without the container, kill count 3 (\<open>j = 2\<close>);
  the run returns a traceback as its error and has issued no exec call.
\<close>

theorem missing_container_at_third_pod:
  "fst (kill_containers
          (cluster_gateway [(''web-0'', [''app'']), (''web-1'', [''app'']), (''web-2'', [''sidecar''])])
          (chaos_cfg 3) st0) =
     (''error'', ContainerKillErrorOutput
        ''Traceback (most recent call last): AttributeError: CoreV1Api object has no attribute openapi_types'') \<and>
   exec_calls (calls (snd (kill_containers
          (cluster_gateway [(''web-0'', [''app'']), (''web-1'', [''app'']), (''web-2'', [''sidecar''])])
          (chaos_cfg 3) st0))) = []"
  by code_simp

text \<open>
  C4. For every valid configuration (a kill count of at least 1 and a label selector),
  every gateway and every starting state, \<^verbatim>\<open>kill_containers\<close> returns a pair whose
  tag is \<^verbatim>\<open>"success"\<close> with a mapping of records or \<^verbatim>\<open>"error"\<close> with a message, and
  no exception leaves it: an exception raised while reading the kube-config, a missing
  configuration, an exception raised while loading it, while reading the pod or while
  running the command, and the exception raised after a command that succeeded, each
  end in \<^verbatim>\<open>"error"\<close> with the traceback of that exception. Listing is never called,
  so the result is the same whatever listing would do.
\<close>

theorem kill_containers_tagged_outcome:
  assumes "1 \<le> kill cfg" and "py_truthy (label_selector cfg)"
  shows
   "((\<exists>records. fst (kill_containers gw cfg st) = (''success'', ContainerKillSuccessOutput records)) \<or>
     (\<exists>message. fst (kill_containers gw cfg st) = (''error'', ContainerKillErrorOutput message))) \<and>
    (KubeConfigMerger gw (KUBE_CONFIG_DEFAULT_LOCATION gw) (world st) = (Inl e1, w1) \<longrightarrow>
       fst (kill_containers gw cfg st) = (''error'', ContainerKillErrorOutput (format_exc gw e1))) \<and>
    kill_containers (gw\<lparr>list_namespaced_pod := listing\<rparr>) cfg st = kill_containers gw cfg st \<and>
    (KubeConfigMerger gw (KUBE_CONFIG_DEFAULT_LOCATION gw) (world st) = (Inr None, w1) \<longrightarrow>
       fst (kill_containers gw cfg st) =
         (''error'', ContainerKillErrorOutput (format_exc gw (Exception
            (''Invalid kube-config file: '' @ KUBE_CONFIG_DEFAULT_LOCATION gw @
             ''. No configuration found.''))))) \<and>
    (KubeConfigMerger gw (KUBE_CONFIG_DEFAULT_LOCATION gw) (world st) = (Inr (Some d), w1) \<longrightarrow>
       (load_and_set gw d w1 = (Inl e2, w2) \<longrightarrow>
          fst (kill_containers gw cfg st) = (''error'', ContainerKillErrorOutput (format_exc gw e2))) \<and>
       (load_and_set gw d w1 = (Inr cc, w2) \<longrightarrow> \<not> 3 < kill cfg \<longrightarrow>
          (read_namespaced_pod gw (CoreV1Api (ApiClient cc)) (namespace cfg) w2 = (Inl e3, w3) \<longrightarrow>
             fst (kill_containers gw cfg st) =
               (''error'', ContainerKillErrorOutput (format_exc gw e3))) \<and>
          (read_namespaced_pod gw (CoreV1Api (ApiClient cc)) (namespace cfg) w2 = (Inr pod_info, w3) \<longrightarrow>
           py_in (container_name cfg) (spec_containers pod_info) \<longrightarrow>
             (stream gw \<lparr>ex_name = CoreV1Api (ApiClient cc), ex_namespace = namespace cfg,
                         ex_container = (if py_truthy (container_name cfg) then container_name cfg else None),
                         ex_command = [''bash'', ''-c'', command cfg], ex_stderr = True,
                         ex_stdin = False, ex_stdout = True, ex_tty = False\<rparr> w3 = (Inl e4, w4) \<longrightarrow>
                fst (kill_containers gw cfg st) =
                  (''error'', ContainerKillErrorOutput (format_exc gw e4))) \<and>
             (stream gw \<lparr>ex_name = CoreV1Api (ApiClient cc), ex_namespace = namespace cfg,
                         ex_container = (if py_truthy (container_name cfg) then container_name cfg else None),
                         ex_command = [''bash'', ''-c'', command cfg], ex_stderr = True,
                         ex_stdin = False, ex_stdout = True, ex_tty = False\<rparr> w3 = (Inr out, w4) \<longrightarrow>
                fst (kill_containers gw cfg st) =
                  (''error'', ContainerKillErrorOutput
                     (format_exc gw (AttributeError ''CoreV1Api'' ''metadata'')))))))"
    (is "?shape \<and> ?merger_raises \<and> ?listing \<and> ?no_config \<and> ?rest")
proof -
  have shape: ?shape
  proof (cases "setup_kubernetes gw None st")
    case (Pair r st1)
    show ?thesis
    proof (cases r)
      case (Inl e)
      with Pair show ?thesis by (simp add: kill_containers_def)
    next
      case (Inr cli)
      from with_body_shape [of gw cfg cli st1] show ?thesis
        using Pair Inr by (auto simp: kill_containers_def Let_def)
    qed
  qed
  have a: ?merger_raises
    by (simp add: kill_containers_def setup_kubernetes_def invoke_def Let_def)
  have b: ?no_config
    by (simp add: kill_containers_def setup_kubernetes_def invoke_def Let_def)
  have c: ?rest
  proof (intro impI conjI)
    assume "KubeConfigMerger gw (KUBE_CONFIG_DEFAULT_LOCATION gw) (world st) = (Inr (Some d), w1)"
       and "load_and_set gw d w1 = (Inl e2, w2)"
    then show "fst (kill_containers gw cfg st) = (''error'', ContainerKillErrorOutput (format_exc gw e2))"
      by (simp add: kill_containers_def setup_kubernetes_def invoke_def Let_def)
  next
    assume m: "KubeConfigMerger gw (KUBE_CONFIG_DEFAULT_LOCATION gw) (world st) = (Inr (Some d), w1)"
       and l: "load_and_set gw d w1 = (Inr cc, w2)" and k: "\<not> 3 < kill cfg"
    let ?st1 = "\<lparr>world = w2, calls = calls st @ [KubeConfigMerger_call (KUBE_CONFIG_DEFAULT_LOCATION gw),
                   load_and_set_call d]\<rparr>"
    from m l have s: "setup_kubernetes gw None st = (Inr (ApiClient cc), ?st1)"
      by (simp add: setup_kubernetes_def invoke_def Let_def)
    note body = with_body_first_pod [OF assms(1) k, of gw "ApiClient cc" ?st1]
    {
      assume "read_namespaced_pod gw (CoreV1Api (ApiClient cc)) (namespace cfg) w2 = (Inl e3, w3)"
      then have "fst (with_body gw cfg (ApiClient cc) ?st1) = Raise e3"
        by (simp add: body kill_one_def get_containers_in_pod_def invoke_def Let_def)
      then show "fst (kill_containers gw cfg st) = (''error'', ContainerKillErrorOutput (format_exc gw e3))"
        using kill_containers_after_setup [OF s, of cfg]
        by (cases "with_body gw cfg (ApiClient cc) ?st1") simp
    }
    {
      assume r: "read_namespaced_pod gw (CoreV1Api (ApiClient cc)) (namespace cfg) w2 = (Inr pod_info, w3)"
         and p: "py_in (container_name cfg) (spec_containers pod_info)"
      {
        assume "stream gw \<lparr>ex_name = CoreV1Api (ApiClient cc), ex_namespace = namespace cfg,
                         ex_container = (if py_truthy (container_name cfg) then container_name cfg else None),
                         ex_command = [''bash'', ''-c'', command cfg], ex_stderr = True,
                         ex_stdin = False, ex_stdout = True, ex_tty = False\<rparr> w3 = (Inl e4, w4)"
        with r p have "fst (with_body gw cfg (ApiClient cc) ?st1) = Raise e4"
          by (simp add: body kill_one_def get_containers_in_pod_def exec_cmd_in_pod_def invoke_def
                Let_def split: if_splits)
        then show "fst (kill_containers gw cfg st) = (''error'', ContainerKillErrorOutput (format_exc gw e4))"
          using kill_containers_after_setup [OF s, of cfg]
          by (cases "with_body gw cfg (ApiClient cc) ?st1") simp
      }
      {
        assume "stream gw \<lparr>ex_name = CoreV1Api (ApiClient cc), ex_namespace = namespace cfg,
                         ex_container = (if py_truthy (container_name cfg) then container_name cfg else None),
                         ex_command = [''bash'', ''-c'', command cfg], ex_stderr = True,
                         ex_stdin = False, ex_stdout = True, ex_tty = False\<rparr> w3 = (Inr out, w4)"
        with r p have "fst (with_body gw cfg (ApiClient cc) ?st1) = Raise (AttributeError ''CoreV1Api'' ''metadata'')"
          by (simp add: body kill_one_def get_containers_in_pod_def exec_cmd_in_pod_def invoke_def
                record_kill_raises Let_def split: if_splits)
        then show "fst (kill_containers gw cfg st) =
                  (''error'', ContainerKillErrorOutput
                     (format_exc gw (AttributeError ''CoreV1Api'' ''metadata'')))"
          using kill_containers_after_setup [OF s, of cfg]
          by (cases "with_body gw cfg (ApiClient cc) ?st1") simp
      }
    }
  qed
  have l: ?listing by (rule kill_containers_ignores_list)
  from shape a l b c show ?thesis by blast
qed

theorem kill_containers_tagged_outcome_witness:
  "fst (kill_containers
          (stub_gateway (Inl (Exception ''no route to host'')) (Inr ''client'')
             (Inr \<lparr>metadata_name = ''web-0'', spec_containers = [''app'']\<rparr>) (Inr []))
          (chaos_cfg 1) st0) =
     (''error'', ContainerKillErrorOutput
        ''Traceback (most recent call last): Exception: no route to host'') \<and>
   fst (kill_containers (cluster_gateway [(''web-0'', [''app''])]) (chaos_cfg 1) st0) =
     (''error'', ContainerKillErrorOutput
        ''Traceback (most recent call last): AttributeError: CoreV1Api object has no attribute openapi_types'') \<and>
   fst (kill_containers
          (stub_gateway (Inr (Some ''cluster'')) (Inr ''client'')
             (Inr \<lparr>metadata_name = ''web-0'', spec_containers = [''app'']\<rparr>)
             (Inl (ApiException ''(500) exec failed'')))
          (chaos_cfg 1) st0) =
     (''error'', ContainerKillErrorOutput
        ''Traceback (most recent call last): ApiException: (500) exec failed'') \<and>
   fst (kill_containers
          (stub_gateway (Inr (Some ''cluster'')) (Inr ''client'')
             (Inr \<lparr>metadata_name = ''web-0'', spec_containers = [''app'']\<rparr>) (Inr []))
          (chaos_cfg 1) st0) =
     (''error'', ContainerKillErrorOutput
        ''Traceback (most recent call last): AttributeError: CoreV1Api object has no attribute metadata'')"
proof -
  have h1: "1 \<le> kill (chaos_cfg 1)" and h2: "py_truthy (label_selector (chaos_cfg 1))"
    by (simp_all add: chaos_cfg_def py_truthy_def)
  note t = kill_containers_tagged_outcome [OF h1 h2, where st = st0]
  have connect: "fst (kill_containers
          (stub_gateway (Inl (Exception ''no route to host'')) (Inr ''client'')
             (Inr \<lparr>metadata_name = ''web-0'', spec_containers = [''app'']\<rparr>) (Inr []))
          (chaos_cfg 1) st0) =
     (''error'', ContainerKillErrorOutput
        ''Traceback (most recent call last): Exception: no route to host'')"
    using t [where gw = "stub_gateway (Inl (Exception ''no route to host'')) (Inr ''client'')
             (Inr \<lparr>metadata_name = ''web-0'', spec_containers = [''app'']\<rparr>) (Inr [])"
          and ?e1.0 = "Exception ''no route to host''" and ?w1.0 = 0]
    by (simp add: stub_gateway_def cluster_gateway_def st0_def)
  have read: "fst (kill_containers (cluster_gateway [(''web-0'', [''app''])]) (chaos_cfg 1) st0) =
     (''error'', ContainerKillErrorOutput
        ''Traceback (most recent call last): AttributeError: CoreV1Api object has no attribute openapi_types'')"
    using t [where gw = "cluster_gateway [(''web-0'', [''app''])]"
          and d = "''~/.kube/config''" and ?w1.0 = 0 and cc = "''~/.kube/config''" and ?w2.0 = 0
          and ?e3.0 = "AttributeError ''CoreV1Api'' ''openapi_types''" and ?w3.0 = 0]
    by (simp add: cluster_gateway_def st0_def chaos_cfg_def)
  have exec_raises: "fst (kill_containers
          (stub_gateway (Inr (Some ''cluster'')) (Inr ''client'')
             (Inr \<lparr>metadata_name = ''web-0'', spec_containers = [''app'']\<rparr>)
             (Inl (ApiException ''(500) exec failed'')))
          (chaos_cfg 1) st0) =
     (''error'', ContainerKillErrorOutput
        ''Traceback (most recent call last): ApiException: (500) exec failed'')"
    using t [where gw = "stub_gateway (Inr (Some ''cluster'')) (Inr ''client'')
             (Inr \<lparr>metadata_name = ''web-0'', spec_containers = [''app'']\<rparr>)
             (Inl (ApiException ''(500) exec failed''))"
          and d = "''cluster''" and ?w1.0 = 0 and cc = "''client''" and ?w2.0 = 0
          and pod_info = "\<lparr>metadata_name = ''web-0'', spec_containers = [''app'']\<rparr>" and ?w3.0 = 0
          and ?e4.0 = "ApiException ''(500) exec failed''" and ?w4.0 = 0]
    by (simp add: stub_gateway_def cluster_gateway_def st0_def chaos_cfg_def py_in_def py_truthy_def)
  have exec_returns: "fst (kill_containers
          (stub_gateway (Inr (Some ''cluster'')) (Inr ''client'')
             (Inr \<lparr>metadata_name = ''web-0'', spec_containers = [''app'']\<rparr>) (Inr []))
          (chaos_cfg 1) st0) =
     (''error'', ContainerKillErrorOutput
        ''Traceback (most recent call last): AttributeError: CoreV1Api object has no attribute metadata'')"
    using t [where gw = "stub_gateway (Inr (Some ''cluster'')) (Inr ''client'')
             (Inr \<lparr>metadata_name = ''web-0'', spec_containers = [''app'']\<rparr>) (Inr [])"
          and d = "''cluster''" and ?w1.0 = 0 and cc = "''client''" and ?w2.0 = 0
          and pod_info = "\<lparr>metadata_name = ''web-0'', spec_containers = [''app'']\<rparr>" and ?w3.0 = 0
          and out = "[]" and ?w4.0 = 0]
    by (simp add: stub_gateway_def cluster_gateway_def st0_def chaos_cfg_def py_in_def py_truthy_def)
  from connect read exec_raises exec_returns show ?thesis by blast
qed

text \<open>
  C5. For every configuration with a kill count of at least 1 that passes the check of
  line 171 (the count is at most the three elements of the tuple), and for every
  gateway and starting state, \<^verbatim>\<open>kill_containers\<close> does not return \<^verbatim>\<open>"success"\<close>: the
  result is \<^verbatim>\<open>"error"\<close>, either with the message of the container-not-found branch or
  with the traceback written by the top-level handler.
\<close>

theorem kill_containers_never_success:
  assumes "1 \<le> kill cfg" and "\<not> 3 < kill cfg"
  shows "fst (fst (kill_containers gw cfg st)) \<noteq> ''success'' \<and>
         (fst (kill_containers gw cfg st) = (''error'', ContainerKillErrorOutput
            ''Cannot find the specified container in the pods matching the label, please check'')
          \<or> (\<exists>e. fst (kill_containers gw cfg st) =
                (''error'', ContainerKillErrorOutput (format_exc gw e))))"
proof (cases "setup_kubernetes gw None st")
  case (Pair r st1)
  show ?thesis
  proof (cases r)
    case (Inl e)
    with Pair show ?thesis by (auto simp: kill_containers_def)
  next
    case (Inr cli)
    let ?pods = "[CoreV1Api cli, py_opt (label_selector cfg), PStr (namespace cfg)]"
    have body: "with_body gw cfg cli st1 = kill_loop gw cfg ?pods [0 ..< nat (kill cfg)] [] st1"
      using assms(2) by (simp add: with_body_def)
    from assms(1) have "[0 ..< nat (kill cfg)] \<noteq> []" by simp
    from kill_loop_outcome [OF this, of gw cfg ?pods "[]" st1]
    show ?thesis
      using Pair Inr body by (auto simp: kill_containers_def Let_def)
  qed
qed

theorem kill_containers_never_success_witness:
  "1 \<le> kill (chaos_cfg 2) \<and> \<not> 3 < kill (chaos_cfg 2) \<and>
   fst (fst (kill_containers (cluster_gateway [(''web-0'', [''app'']), (''web-1'', [''app''])])
              (chaos_cfg 2) st0)) \<noteq> ''success''"
proof -
  have h1: "1 \<le> kill (chaos_cfg 2)" and h2: "\<not> 3 < kill (chaos_cfg 2)"
    by (simp_all add: chaos_cfg_def)
  from kill_containers_never_success [OF h1 h2] h1 h2 show ?thesis by blast
qed

text \<open>
  C7, as amended. The configuration has no name-pattern field: \<^verbatim>\<open>label_selector\<close>
  (minimum length 1, required if \<^verbatim>\<open>name_pattern\<close> is not set) is its only selection
  field. When the label selector is absent or empty, \<^verbatim>\<open>list_pods\<close> asks the cluster for
  the full pod list of the namespace and returns the name of every pod of the answer,
  with no filtering by a pattern.
\<close>

theorem selection_by_label_selector_only:
  assumes "\<not> py_truthy sel"
      and "list_namespaced_pod gw ns None (world st) = (Inr items, w')"
  shows "selection_fields = [''label_selector''] \<and>
         map_of KillContainerConfig_fields ''label_selector'' = Some [Min 1, Required_if_not ''name_pattern''] \<and>
         list_pods gw ns sel st =
           (Inr (map metadata_name items),
            \<lparr>world = w', calls = calls st @ [list_namespaced_pod_call ns None]\<rparr>)"
  using assms
  by (simp add: list_pods_def invoke_def Let_def KillContainerConfig_fields_def selection_fields_def)

theorem selection_by_label_selector_only_witness:
  "selection_fields = [''label_selector''] \<and>
   list_pods (cluster_gateway [(''web-0'', [''app'']), (''db-0'', [''pg''])]) ''chaos'' None st0 =
     (Inr [''web-0'', ''db-0''],
      \<lparr>world = 0, calls = [list_namespaced_pod_call ''chaos'' None]\<rparr>)"
proof -
  have a: "\<not> py_truthy None" by (simp add: py_truthy_def)
  have b: "list_namespaced_pod (cluster_gateway [(''web-0'', [''app'']), (''db-0'', [''pg''])])
             ''chaos'' None (world st0)
           = (Inr [\<lparr>metadata_name = ''web-0'', spec_containers = [''app'']\<rparr>,
                   \<lparr>metadata_name = ''db-0'', spec_containers = [''pg'']\<rparr>], 0)"
    by (simp add: cluster_gateway_def st0_def)
  from selection_by_label_selector_only [OF a b] show ?thesis by (simp add: st0_def)
qed

theorem name_pattern_is_no_field:
  "''name_pattern'' \<notin> set (map fst KillContainerConfig_fields) \<and>
   selection_fields = [''label_selector'']"
  by (simp add: KillContainerConfig_fields_def selection_fields_def)

text \<open>
  C8. The claim: the cluster session is opened from the \<^verbatim>\<open>kubeconfig_path\<close> of the
  configuration when one is given. The code at the failing input: the configuration
  names \<^verbatim>\<open>/etc/chaos/kubeconfig\<close>; \<^verbatim>\<open>kill_containers\<close> reads the default location
  all the same, while \<^verbatim>\<open>setup_kubernetes\<close> called with the path would read that file.
\<close>

theorem supplied_kubeconfig_path_is_not_used:
  "calls (snd (kill_containers (cluster_gateway [(''web-0'', [''app''])])
                 ((chaos_cfg 1)\<lparr>kubeconfig_path := Some ''/etc/chaos/kubeconfig''\<rparr>) st0)) =
     [KubeConfigMerger_call ''~/.kube/config'', load_and_set_call ''~/.kube/config'',
      read_namespaced_pod_call (CoreV1Api (ApiClient ''~/.kube/config'')) ''chaos'', close_call] \<and>
   setup_kubernetes (cluster_gateway [(''web-0'', [''app''])]) (Some ''/etc/chaos/kubeconfig'') st0 =
     (Inr (ApiClient ''/etc/chaos/kubeconfig''),
      \<lparr>world = 0, calls = [KubeConfigMerger_call ''/etc/chaos/kubeconfig'',
                            load_and_set_call ''/etc/chaos/kubeconfig'']\<rparr>)"
  by code_simp

text \<open>
  C9. For every command, pod, namespace, container and shell (\<^verbatim>\<open>bash\<close> when left
  out), \<^verbatim>\<open>exec_cmd_in_pod\<close> issues exactly one exec request: its argument vector is the
  shell, \<^verbatim>\<open>-c\<close> and the command; stdin and tty are off, stdout and stderr on; the
  container is named when a non-empty one is given and left to the pod's default
  otherwise; and the result (output or exception) is what the request gave.
\<close>

theorem exec_cmd_in_pod_request:
  "\<exists>req. ex_command req = [(case base_command of None \<Rightarrow> ''bash'' | Some b \<Rightarrow> b), ''-c'', cmd]
       \<and> ex_stdin req = False \<and> ex_tty req = False \<and> ex_stdout req = True \<and> ex_stderr req = True
       \<and> ex_name req = pod_name \<and> ex_namespace req = ns
       \<and> ex_container req = (if py_truthy container then container else None)
       \<and> fst (exec_cmd_in_pod gw cmd pod_name ns container base_command st)
           = fst (stream gw req (world st))
       \<and> world (snd (exec_cmd_in_pod gw cmd pod_name ns container base_command st))
           = snd (stream gw req (world st))
       \<and> calls (snd (exec_cmd_in_pod gw cmd pod_name ns container base_command st))
           = calls st @ [exec_call req]"
  by (cases "py_truthy container")
     (simp_all add: exec_cmd_in_pod_def invoke_def Let_def split: prod.split)

theorem exec_cmd_in_pod_request_witness:
  "calls (snd (exec_cmd_in_pod (cluster_gateway [(''web-0'', [''app''])]) ''kill 1'' (PStr ''web-0'')
                 ''chaos'' (Some ''app'') None st0)) =
     [exec_call \<lparr>ex_name = PStr ''web-0'', ex_namespace = ''chaos'', ex_container = Some ''app'',
                 ex_command = [''bash'', ''-c'', ''kill 1''], ex_stderr = True, ex_stdin = False,
                 ex_stdout = True, ex_tty = False\<rparr>]"
proof -
  from exec_cmd_in_pod_request [of "None" "''kill 1''" "PStr ''web-0''" "''chaos''" "Some ''app''"
      "cluster_gateway [(''web-0'', [''app''])]" st0]
  obtain req where r: "ex_command req = [''bash'', ''-c'', ''kill 1'']" "ex_stdin req = False"
      "ex_tty req = False" "ex_stdout req = True" "ex_stderr req = True"
      "ex_name req = PStr ''web-0''" "ex_namespace req = ''chaos''"
      "ex_container req = Some ''app''"
      "calls (snd (exec_cmd_in_pod (cluster_gateway [(''web-0'', [''app''])]) ''kill 1'' (PStr ''web-0'')
                 ''chaos'' (Some ''app'') None st0)) = calls st0 @ [exec_call req]"
    by (auto simp: py_truthy_def)
  then show ?thesis by (cases req) (simp add: st0_def)
qed

text \<open>
  C10. For every namespace and optional label selector, when the cluster answers the
  listing, \<^verbatim>\<open>list_pods\<close> returns the names of the pods of the answer in the order of
  the answer; an answer without pods gives the empty list, not an error.
\<close>

theorem list_pods_keeps_api_order:
  assumes "list_namespaced_pod gw ns
             (if py_truthy sel then sel else None) (world st) = (Inr items, w')"
  shows "fst (list_pods gw ns sel st) = Inr (map metadata_name items) \<and>
         (items = [] \<longrightarrow> fst (list_pods gw ns sel st) = Inr [])"
  using assms by (simp add: list_pods_def invoke_def Let_def)

theorem list_pods_keeps_api_order_witness:
  "fst (list_pods (cluster_gateway [(''web-1'', [''app'']), (''db-0'', [''pg'']), (''web-0'', [''app''])])
          ''chaos'' (Some ''app=web'') st0) = Inr [''web-1'', ''db-0'', ''web-0''] \<and>
   fst (list_pods (cluster_gateway []) ''chaos'' None st0) = Inr []"
proof -
  have a: "list_namespaced_pod (cluster_gateway [(''web-1'', [''app'']), (''db-0'', [''pg'']), (''web-0'', [''app''])])
             ''chaos'' (if py_truthy (Some ''app=web'') then Some ''app=web'' else None) (world st0)
           = (Inr [\<lparr>metadata_name = ''web-1'', spec_containers = [''app'']\<rparr>,
                   \<lparr>metadata_name = ''db-0'', spec_containers = [''pg'']\<rparr>,
                   \<lparr>metadata_name = ''web-0'', spec_containers = [''app'']\<rparr>], 0)"
    by (simp add: cluster_gateway_def st0_def)
  have b: "list_namespaced_pod (cluster_gateway []) ''chaos''
             (if py_truthy None then None else None) (world st0) = (Inr [], 0)"
    by (simp add: cluster_gateway_def st0_def)
  from list_pods_keeps_api_order [OF a] list_pods_keeps_api_order [OF b]
  show ?thesis by simp
qed

end
